theory Spec2Isabelle
  imports Complex_Main "HOL-Library.Word"
begin

section \<open>Values handled by the bounding-box factor\<close>

text \<open>
  Eigen vectors and matrices of doubles are lists of reals and lists of rows. Double
  arithmetic is idealised to real arithmetic; nothing below depends on rounding, only on
  which entries are combined by which operation.
\<close>

type_synonym Vector = "real list"
type_synonym Matrix = "real list list"
type_synonym Key = "64 word"

definition Ones :: "nat \<Rightarrow> Vector" where
  "Ones n = replicate n 1"

definition scale :: "Vector \<Rightarrow> real \<Rightarrow> Vector" where
  "scale v c = map (\<lambda>x. x * c) v"

definition Zero :: "nat \<Rightarrow> nat \<Rightarrow> Matrix" where
  "Zero r c = replicate r (replicate c 0)"

definition vminus :: "Vector \<Rightarrow> Vector \<Rightarrow> Vector" where
  "vminus a b = map2 (\<lambda>x y. x - y) a b"

definition dot :: "Vector \<Rightarrow> Vector \<Rightarrow> real" where
  "dot a b = sum_list (map2 (\<lambda>x y. x * y) a b)"

definition column :: "Matrix \<Rightarrow> nat \<Rightarrow> Vector" where
  "column B j = map (\<lambda>r. r ! j) B"

text \<open>The product \<open>A * B\<close> of Eigen: entry \<open>(i, j)\<close> is row \<open>i\<close> of \<open>A\<close> times column \<open>j\<close> of \<open>B\<close>.\<close>

definition cols :: "Matrix \<Rightarrow> nat" where
  "cols B = (case B of [] \<Rightarrow> 0 | r # _ \<Rightarrow> length r)"

definition mat_mul :: "Matrix \<Rightarrow> Matrix \<Rightarrow> Matrix" where
  "mat_mul A B = map (\<lambda>row. map (\<lambda>j. dot row (column B j)) [0 ..< cols B]) A"

definition dims :: "Matrix \<Rightarrow> nat \<Rightarrow> nat \<Rightarrow> bool" where
  "dims A r c = (length A = r \<and> list_all (\<lambda>row. length row = c) A)"

text \<open>
  Modelled from the spec: the class AlignedBox2 (header quadricslam/geometry/AlignedBox2.h)
  is not among the sources. The spec's Box is stored as (xmin, ymin, xmax, ymax), and
  \<open>vector()\<close> lists the four numbers in that order.
\<close>

record AlignedBox2 =
  xmin :: real
  ymin :: real
  xmax :: real
  ymax :: real

definition vector :: "AlignedBox2 \<Rightarrow> Vector" where
  "vector b = [xmin b, ymin b, xmax b, ymax b]"

text \<open>
  Modelled from the spec: Pose3 and Cal3_S2 belong to the host library and
  ConstrainedDualQuadric to a header that is not among the sources. They are records of
  the constructor arguments used in simpleExample.cpp: a rotation and a translation, the
  five intrinsics (fx, fy, s, u0, v0), a pose and three radii. The factor only hands them
  on to the projection.
\<close>

record Pose3 =
  rotation :: Matrix
  translation :: Vector

record Cal3_S2 =
  fx :: real
  fy :: real
  skew :: real
  u0 :: real
  v0 :: real

record ConstrainedDualQuadric =
  centre :: Pose3
  radii :: Vector

text \<open>DualConic.h: a dual conic holds the 3x3 matrix \<open>dC_\<close>.\<close>

record DualConic =
  dC :: Matrix

section \<open>Exceptions\<close>

text \<open>
  The factor distinguishes three kinds of thrown object by its handlers: the repository's
  QuadricProjectionException, any other std::runtime_error, and everything else. The
  header that declares QuadricProjectionException is not among the sources, so whether it
  derives from std::runtime_error is a parameter (\<open>qpe_is_runtime_error\<close> below).
\<close>

datatype exn =
  QuadricProjectionException string
  | StdRuntimeError string
  | OtherException string

fun is_QuadricProjectionException :: "exn \<Rightarrow> bool" where
  "is_QuadricProjectionException (QuadricProjectionException _) = True"
| "is_QuadricProjectionException _ = False"

fun is_runtime_error :: "bool \<Rightarrow> exn \<Rightarrow> bool" where
  "is_runtime_error derived (QuadricProjectionException _) = derived"
| "is_runtime_error derived (StdRuntimeError _) = True"
| "is_runtime_error derived (OtherException _) = False"

section \<open>The functions the factor calls\<close>

text \<open>
  QuadricCamera::project, DualConic::bounds and DualConic::smartBounds are called by the
  factor but their bodies are not among the sources; they are parameters of the model.
  Each returns either the exception it throws or its result. An optional Jacobian
  argument is a flag (is the pointer non-null); the matrices in the result are the
  contents of the caller's buffers after the call. The arguments of \<open>project\<close> are in the
  order of the call: quadric, pose, calibration, flag for \<open>dC_dq\<close>, flag for \<open>dC_dx\<close>; its
  result is the conic, \<open>dC_dq\<close> and \<open>dC_dx\<close>.
\<close>

record Geometry =
  project :: "ConstrainedDualQuadric \<Rightarrow> Pose3 \<Rightarrow> Cal3_S2 \<Rightarrow> bool \<Rightarrow> bool
                \<Rightarrow> exn + (DualConic \<times> Matrix \<times> Matrix)"
  bounds :: "DualConic \<Rightarrow> bool \<Rightarrow> exn + (AlignedBox2 \<times> Matrix)"
  smartBounds :: "DualConic \<Rightarrow> Cal3_S2 \<Rightarrow> bool \<Rightarrow> exn + (AlignedBox2 \<times> Matrix)"
  qpe_is_runtime_error :: bool

section \<open>BoundingBoxFactor\<close>

datatype ErrorType = SIMPLE | COMPLEX

text \<open>
  The members read by BoundingBoxFactor.cpp: \<open>measured_\<close>, \<open>calibration_\<close>, \<open>errorType_\<close>,
  the noise model and the two keys. The noise model is opaque to the factor.
\<close>

record 'n BoundingBoxFactor =
  measured :: AlignedBox2
  calibration :: Cal3_S2
  errorType :: ErrorType
  noiseModel :: 'n
  key1 :: Key
  key2 :: Key

text \<open>
  Lines 61 to 81: the predicted bounds. In COMPLEX mode the inner handler catches every
  std::runtime_error thrown by smartBounds and throws a QuadricProjectionException in
  its place.
\<close>

definition predictedBounds ::
  "Geometry \<Rightarrow> 'n BoundingBoxFactor \<Rightarrow> DualConic \<Rightarrow> bool \<Rightarrow> exn + (AlignedBox2 \<times> Matrix)" where
  "predictedBounds g this dualConic computeJacobians =
     (case errorType this of
        SIMPLE \<Rightarrow> bounds g dualConic computeJacobians
      | COMPLEX \<Rightarrow>
          (case smartBounds g dualConic (calibration this) computeJacobians of
             Inl e \<Rightarrow>
               if is_runtime_error (qpe_is_runtime_error g) e
               then Inl (QuadricProjectionException ''smartbounds failed'')
               else Inl e
           | Inr r \<Rightarrow> Inr r))"

text \<open>
  Lines 34 to 133: the body of the outer try block, with NUMERICAL_DERIVATIVE false as
  the file defines it. The result is the error vector and the matrices written to
  \<open>H1\<close> and \<open>H2\<close> (None where the caller passed none).
\<close>

definition tryBlock ::
  "Geometry \<Rightarrow> 'n BoundingBoxFactor \<Rightarrow> Pose3 \<Rightarrow> ConstrainedDualQuadric \<Rightarrow> bool \<Rightarrow> bool
     \<Rightarrow> exn + (Vector \<times> Matrix option \<times> Matrix option)" where
  "tryBlock g this pose quadric H1 H2 =
     (case project g quadric pose (calibration this) H2 H1 of
        Inl e \<Rightarrow> Inl e
      | Inr (dualConic, dC_dq, dC_dx) \<Rightarrow>
          (let computeJacobians = (H1 \<or> H2) in
           case predictedBounds g this dualConic computeJacobians of
             Inl e \<Rightarrow> Inl e
           | Inr (predicted, db_dC) \<Rightarrow>
               Inr (vminus (vector predicted) (vector (measured this)),
                    if H1 then Some (mat_mul db_dC dC_dx) else None,
                    if H2 then Some (mat_mul db_dC dC_dq) else None)))"

text \<open>
  Lines 137 to 156: the handler for QuadricProjectionException. Any other exception
  leaves the function.
\<close>

definition evaluateError ::
  "Geometry \<Rightarrow> 'n BoundingBoxFactor \<Rightarrow> Pose3 \<Rightarrow> ConstrainedDualQuadric \<Rightarrow> bool \<Rightarrow> bool
     \<Rightarrow> exn + (Vector \<times> Matrix option \<times> Matrix option)" where
  "evaluateError g this pose quadric H1 H2 =
     (case tryBlock g this pose quadric H1 H2 of
        Inl e \<Rightarrow>
          if is_QuadricProjectionException e
          then Inr (scale (Ones 4) 1000,
                    if H1 then Some (Zero 4 6) else None,
                    if H2 then Some (Zero 4 9) else None)
          else Inl e
      | Inr r \<Rightarrow> Inr r)"

text \<open>
  The objects a call can reach: the factor itself and the two matrices that the caller
  passes by reference as \<open>H1\<close> and \<open>H2\<close>. evaluateError is a const member function, and
  the statements that would write members through a const_cast (the cache of the last
  valid error and Jacobians, and the noise model with a high sigma) are comments; the
  only assignments to objects of the caller are \<open>*H1 = ...\<close> and \<open>*H2 = ...\<close>, after
  the last call that can throw. The called functions receive their arguments by value in
  the model.
\<close>

record 'n state =
  object :: "'n BoundingBoxFactor"
  H1_matrix :: Matrix
  H2_matrix :: Matrix

definition evaluateError_st ::
  "Geometry \<Rightarrow> Pose3 \<Rightarrow> ConstrainedDualQuadric \<Rightarrow> bool \<Rightarrow> bool \<Rightarrow> 'n state
     \<Rightarrow> (exn + Vector) \<times> 'n state" where
  "evaluateError_st g pose quadric H1 H2 s =
     (case evaluateError g (object s) pose quadric H1 H2 of
        Inl e \<Rightarrow> (Inl e, s)
      | Inr (error, J1, J2) \<Rightarrow>
          (Inr error,
           s\<lparr>H1_matrix := (case J1 of None \<Rightarrow> H1_matrix s | Some m \<Rightarrow> m),
             H2_matrix := (case J2 of None \<Rightarrow> H2_matrix s | Some m \<Rightarrow> m)\<rparr>))"

text \<open>
  Lines 162 to 173. The local matrix starts empty, is passed as the requested Jacobian
  and is returned; an exception that leaves evaluateError leaves these functions too.
\<close>

definition evaluateH1 ::
  "Geometry \<Rightarrow> 'n BoundingBoxFactor \<Rightarrow> Pose3 \<Rightarrow> ConstrainedDualQuadric \<Rightarrow> exn + Matrix" where
  "evaluateH1 g this pose quadric =
     (case evaluateError g this pose quadric True False of
        Inl e \<Rightarrow> Inl e
      | Inr (error, H1, H2) \<Rightarrow> Inr (case H1 of None \<Rightarrow> [] | Some m \<Rightarrow> m))"

definition evaluateH2 ::
  "Geometry \<Rightarrow> 'n BoundingBoxFactor \<Rightarrow> Pose3 \<Rightarrow> ConstrainedDualQuadric \<Rightarrow> exn + Matrix" where
  "evaluateH2 g this pose quadric =
     (case evaluateError g this pose quadric False True of
        Inl e \<Rightarrow> Inl e
      | Inr (error, H1, H2) \<Rightarrow> Inr (case H2 of None \<Rightarrow> [] | Some m \<Rightarrow> m))"

text \<open>
  Lines 197 to 203. The comparisons of boxes, calibrations and noise models up to a
  tolerance belong to classes whose bodies are not among the sources; they are
  parameters.
\<close>

record 'n Testable =
  box_equals :: "AlignedBox2 \<Rightarrow> AlignedBox2 \<Rightarrow> real \<Rightarrow> bool"
  cal_equals :: "Cal3_S2 \<Rightarrow> Cal3_S2 \<Rightarrow> real \<Rightarrow> bool"
  noise_equals :: "'n \<Rightarrow> 'n \<Rightarrow> real \<Rightarrow> bool"

definition equals ::
  "'n Testable \<Rightarrow> 'n BoundingBoxFactor \<Rightarrow> 'n BoundingBoxFactor \<Rightarrow> real \<Rightarrow> bool" where
  "equals t this other tol =
     (box_equals t (measured this) (measured other) tol
      \<and> cal_equals t (calibration this) (calibration other) tol
      \<and> noise_equals t (noiseModel this) (noiseModel other) tol
      \<and> key1 this = key1 other \<and> key2 this = key2 other)"

section \<open>A concrete scene\<close>

text \<open>
  The calibration and the first quadric of simpleExample.cpp, a camera at (10, 0, 0), and
  two stand-ins for the called functions: one whose calls all return, and one in which
  bounds throws a QuadricProjectionException and smartBounds a std::runtime_error.
\<close>

definition example_calibration :: Cal3_S2 where
  "example_calibration = \<lparr>fx = 525, fy = 525, skew = 0, u0 = 320, v0 = 240\<rparr>"

definition identity_pose :: Pose3 where
  "identity_pose = \<lparr>rotation = [[1, 0, 0], [0, 1, 0], [0, 0, 1]], translation = [0, 0, 0]\<rparr>"

definition example_pose :: Pose3 where
  "example_pose = \<lparr>rotation = [[1, 0, 0], [0, 1, 0], [0, 0, 1]], translation = [10, 0, 0]\<rparr>"

definition example_quadric :: ConstrainedDualQuadric where
  "example_quadric = \<lparr>centre = identity_pose, radii = [1, 2, 3]\<rparr>"

definition unit_circle :: DualConic where
  "unit_circle = \<lparr>dC = [[1, 0, 0], [0, 1, 0], [0, 0, - 1]]\<rparr>"

definition unit_box :: AlignedBox2 where
  "unit_box = \<lparr>xmin = - 1, ymin = - 1, xmax = 1, ymax = 1\<rparr>"

definition example_factor :: "ErrorType \<Rightarrow> Vector BoundingBoxFactor" where
  "example_factor mode =
     \<lparr>measured = \<lparr>xmin = - 3, ymin = - 2, xmax = 2, ymax = 5\<rparr>,
      calibration = example_calibration, errorType = mode,
      noiseModel = [3, 3, 3, 3], key1 = 0, key2 = 1\<rparr>"

definition returning_geometry :: Geometry where
  "returning_geometry =
     \<lparr>project = (\<lambda>q x k wq wx.
        Inr (unit_circle, replicate 9 (replicate 9 3), replicate 9 (replicate 6 2))),
      bounds = (\<lambda>c w. Inr (unit_box, replicate 4 (replicate 9 1))),
      smartBounds = (\<lambda>c k w. Inr (unit_box, replicate 4 (replicate 9 1))),
      qpe_is_runtime_error = True\<rparr>"

definition throwing_geometry :: Geometry where
  "throwing_geometry =
     \<lparr>project = (\<lambda>q x k wq wx.
        Inr (unit_circle, replicate 9 (replicate 9 3), replicate 9 (replicate 6 2))),
      bounds = (\<lambda>c w. Inl (QuadricProjectionException ''bounds failed'')),
      smartBounds = (\<lambda>c k w. Inl (StdRuntimeError ''no extrema'')),
      qpe_is_runtime_error = True\<rparr>"

definition exact_testable :: "Vector Testable" where
  "exact_testable =
     \<lparr>box_equals = (\<lambda>a b tol. \<bar>xmin a - xmin b\<bar> \<le> tol \<and> \<bar>ymin a - ymin b\<bar> \<le> tol
                       \<and> \<bar>xmax a - xmax b\<bar> \<le> tol \<and> \<bar>ymax a - ymax b\<bar> \<le> tol),
      cal_equals = (\<lambda>a b tol. a = b),
      noise_equals = (\<lambda>a b tol. a = b)\<rparr>"

text \<open>
  Jacobians with pairwise different entries for a 4x9, a 9x6 and a 9x9 buffer, a stand-in
  that fills the buffers with them, and the two products written out.
\<close>

definition example_db_dC :: Matrix where
  "example_db_dC =
      [[- 1, 2, 3, - 4, 5, 6, - 7, 8, 9],
       [10, 11, - 12, 13, 14, - 15, 16, 17, - 18],
       [19, - 20, 21, 22, - 23, 24, 25, - 26, 27],
       [- 28, 29, 30, - 31, 32, 33, - 34, 35, 36]]"

definition example_dC_dx :: Matrix where
  "example_dC_dx =
      [[1, 2, 3, 4, 5, 6],
       [7, 8, 9, 10, 11, 12],
       [13, 14, 15, 16, 17, 18],
       [19, 20, 21, 22, 23, 24],
       [25, 26, 27, 28, 29, 30],
       [31, 32, 33, 34, 35, 36],
       [37, 38, 39, 40, 41, 42],
       [43, 44, 45, 46, 47, 48],
       [49, 50, 51, 52, 53, 54]]"

definition example_dC_dq :: Matrix where
  "example_dC_dq =
      [[- 1, 2, - 3, 4, - 5, 6, - 7, 8, - 9],
       [10, - 11, 12, - 13, 14, - 15, 16, - 17, 18],
       [- 19, 20, - 21, 22, - 23, 24, - 25, 26, - 27],
       [28, - 29, 30, - 31, 32, - 33, 34, - 35, 36],
       [- 37, 38, - 39, 40, - 41, 42, - 43, 44, - 45],
       [46, - 47, 48, - 49, 50, - 51, 52, - 53, 54],
       [- 55, 56, - 57, 58, - 59, 60, - 61, 62, - 63],
       [64, - 65, 66, - 67, 68, - 69, 70, - 71, 72],
       [- 73, 74, - 75, 76, - 77, 78, - 79, 80, - 81]]"

definition jacobian_geometry :: Geometry where
  "jacobian_geometry =
     \<lparr>project = (\<lambda>q x k wq wx. Inr (unit_circle, example_dC_dq, example_dC_dx)),
      bounds = (\<lambda>c w. Inr (unit_box, example_db_dC)),
      smartBounds = (\<lambda>c k w. Inr (unit_box, example_db_dC)),
      qpe_is_runtime_error = True\<rparr>"

definition example_H1 :: Matrix where
  "example_H1 =
      [[813, 834, 855, 876, 897, 918],
       [504, 540, 576, 612, 648, 684],
       [1869, 1938, 2007, 2076, 2145, 2214],
       [3810, 3912, 4014, 4116, 4218, 4320]]"

definition example_H2 :: Matrix where
  "example_H2 =
      [[183, - 186, 189, - 192, 195, - 198, 201, - 204, 207],
       [1006, - 1022, 1038, - 1054, 1070, - 1086, 1102, - 1118, 1134],
       [- 3057, 3126, - 3195, 3264, - 3333, 3402, - 3471, 3540, - 3609],
       [696, - 726, 756, - 786, 816, - 846, 876, - 906, 936]]"

section \<open>The matrix product\<close>

lemma dot_sum:
  "length a = n \<Longrightarrow> length b = n \<Longrightarrow> dot a b = (\<Sum>k<n. a ! k * b ! k)"
  unfolding dot_def
proof (induction a arbitrary: b n)
  case Nil
  then show ?case by simp
next
  case (Cons x xs)
  then obtain y ys where b: "b = y # ys" by (cases b) auto
  from Cons obtain m where n: "n = Suc m" by (cases n) auto
  have "sum_list (map2 (\<lambda>x y. x * y) xs ys) = (\<Sum>k<m. xs ! k * ys ! k)"
    using Cons b n by auto
  then show ?case
    using b n by (simp add: sum.lessThan_Suc_shift del: sum.lessThan_Suc)
qed

lemma cols_dims: "dims B n c \<Longrightarrow> 0 < n \<Longrightarrow> cols B = c"
  by (cases B) (auto simp: dims_def cols_def)

lemma mat_mul_entry:
  assumes "dims A r n" "dims B n c" "0 < n" "i < r" "j < c"
  shows "mat_mul A B ! i ! j = (\<Sum>k<n. A ! i ! k * B ! k ! j)"
proof -
  have lA: "length (A ! i) = n"
    using assms(1,4) by (auto simp: dims_def list_all_length)
  have lc: "length (column B j) = n"
    using assms(2) by (simp add: dims_def column_def)
  have "mat_mul A B ! i ! j = dot (A ! i) (column B j)"
    using assms(1,4,5) cols_dims[OF assms(2,3)] by (simp add: mat_mul_def dims_def)
  also have "\<dots> = (\<Sum>k<n. A ! i ! k * column B j ! k)"
    using dot_sum[OF lA lc] .
  also have "\<dots> = (\<Sum>k<n. A ! i ! k * B ! k ! j)"
    using assms(2) by (intro sum.cong) (auto simp: column_def dims_def)
  finally show ?thesis .
qed

lemma mat_mul_dims:
  assumes "dims A r n" "dims B n c" "0 < n"
  shows "dims (mat_mul A B) r c"
  using assms(1) cols_dims[OF assms(2,3)]
  by (simp add: mat_mul_def dims_def list_all_length)

lemma Zero_dims: "dims (Zero r c) r c"
  by (simp add: Zero_def dims_def list_all_length)

lemma Zero_entry: "i < r \<Longrightarrow> j < c \<Longrightarrow> Zero r c ! i ! j = 0"
  by (simp add: Zero_def)

lemma dims_ext:
  assumes "dims A r c" and "dims B r c"
    and "\<And>i j. i < r \<Longrightarrow> j < c \<Longrightarrow> A ! i ! j = B ! i ! j"
  shows "A = B"
proof (rule nth_equalityI)
  show "length A = length B" using assms(1,2) by (simp add: dims_def)
next
  fix i assume i: "i < length A"
  then have ir: "i < r" using assms(1) by (simp add: dims_def)
  have la: "length (A ! i) = c" using assms(1) i by (simp add: dims_def list_all_length)
  have lb: "length (B ! i) = c" using assms(2) ir by (simp add: dims_def list_all_length)
  show "A ! i = B ! i"
  proof (rule nth_equalityI)
    show "length (A ! i) = length (B ! i)" using la lb by simp
  next
    fix j assume "j < length (A ! i)"
    then show "A ! i ! j = B ! i ! j" using assms(3) [OF ir] la by simp
  qed
qed

lemma example_H1_product: "mat_mul example_db_dC example_dC_dx = example_H1"
  by (simp add: mat_mul_def dot_def column_def cols_def upt_rec
      example_db_dC_def example_dC_dx_def example_H1_def)

lemma example_H2_product: "mat_mul example_db_dC example_dC_dq = example_H2"
  by (simp add: mat_mul_def dot_def column_def cols_def upt_rec
      example_db_dC_def example_dC_dq_def example_H2_def)

lemma example_dims:
  "dims example_db_dC 4 9" "dims example_dC_dx 9 6" "dims example_dC_dq 9 9"
  "dims example_H1 4 6" "dims example_H2 4 9"
  by (simp_all add: dims_def example_db_dC_def example_dC_dx_def example_dC_dq_def
      example_H1_def example_H2_def)

section \<open>What the evaluation reads and writes\<close>

lemma predictedBounds_reads:
  "predictedBounds g (this\<lparr>noiseModel := n, key1 := k1, key2 := k2\<rparr>) c j
     = predictedBounds g this c j"
  by (cases "errorType this") (simp_all add: predictedBounds_def)

lemma tryBlock_reads:
  "tryBlock g (this\<lparr>noiseModel := n, key1 := k1, key2 := k2\<rparr>) pose quadric H1 H2
     = tryBlock g this pose quadric H1 H2"
  by (simp add: tryBlock_def predictedBounds_reads split: sum.splits prod.splits)

lemma evaluateError_reads:
  "evaluateError g (this\<lparr>noiseModel := n, key1 := k1, key2 := k2\<rparr>) pose quadric H1 H2
     = evaluateError g this pose quadric H1 H2"
  by (simp add: evaluateError_def tryBlock_reads)

lemma tryBlock_writes:
  assumes "tryBlock g this pose quadric H1 H2 = Inr (error, J1, J2)"
  shows "(H1 \<longrightarrow> J1 \<noteq> None) \<and> (H2 \<longrightarrow> J2 \<noteq> None)"
  using assms by (auto simp: tryBlock_def split: sum.splits prod.splits)

lemma evaluateError_writes:
  assumes "evaluateError g this pose quadric H1 H2 = Inr (error, J1, J2)"
  shows "(H1 \<longrightarrow> J1 \<noteq> None) \<and> (H2 \<longrightarrow> J2 \<noteq> None)"
  using assms tryBlock_writes [of g this pose quadric H1 H2]
  by (auto simp: evaluateError_def split: sum.splits if_splits)

text \<open>
  An exception that is not a QuadricProjectionException when it reaches the outer handler
  leaves evaluateError: a std::runtime_error thrown by project or by bounds, for one.
\<close>

lemma evaluateError_rethrows:
  assumes "tryBlock g this pose quadric H1 H2 = Inl e"
    and "\<not> is_QuadricProjectionException e"
  shows "evaluateError g this pose quadric H1 H2 = Inl e"
  using assms by (simp add: evaluateError_def)

section \<open>Successful evaluation\<close>

text \<open>
  C2. When the projection returns a conic and the bounds of the factor's mode (bounds in
  SIMPLE mode, smartBounds in COMPLEX mode) return a box, evaluateError returns the
  predicted box minus the measured box, component by component, in the order
  xmin, ymin, xmax, ymax.
\<close>

theorem evaluateError_residual:
  assumes "project g quadric pose (calibration this) H2 H1 = Inr (dualConic, dC_dq, dC_dx)"
    and "(errorType this = SIMPLE \<and> bounds g dualConic (H1 \<or> H2) = Inr (predicted, db_dC))
       \<or> (errorType this = COMPLEX
           \<and> smartBounds g dualConic (calibration this) (H1 \<or> H2) = Inr (predicted, db_dC))"
  shows "\<exists>J1 J2. evaluateError g this pose quadric H1 H2 =
           Inr ([xmin predicted - xmin (measured this),
                 ymin predicted - ymin (measured this),
                 xmax predicted - xmax (measured this),
                 ymax predicted - ymax (measured this)], J1, J2)"
  using assms
  by (auto simp: evaluateError_def tryBlock_def predictedBounds_def vminus_def vector_def)

theorem evaluateError_residual_witness:
  "project returning_geometry example_quadric example_pose
       (calibration (example_factor SIMPLE)) False False
     = Inr (unit_circle, replicate 9 (replicate 9 3), replicate 9 (replicate 6 2))
   \<and> errorType (example_factor SIMPLE) = SIMPLE
   \<and> bounds returning_geometry unit_circle (False \<or> False)
       = Inr (unit_box, replicate 4 (replicate 9 1))
   \<and> evaluateError returning_geometry (example_factor SIMPLE) example_pose example_quadric
       False False = Inr ([2, 1, - 1, - 4], None, None)"
proof -
  have p: "project returning_geometry example_quadric example_pose
             (calibration (example_factor SIMPLE)) False False
           = Inr (unit_circle, replicate 9 (replicate 9 3), replicate 9 (replicate 6 2))"
    by (simp add: returning_geometry_def)
  have b: "(errorType (example_factor SIMPLE) = SIMPLE
             \<and> bounds returning_geometry unit_circle (False \<or> False)
                 = Inr (unit_box, replicate 4 (replicate 9 1)))
           \<or> (errorType (example_factor SIMPLE) = COMPLEX
             \<and> smartBounds returning_geometry unit_circle (calibration (example_factor SIMPLE))
                  (False \<or> False) = Inr (unit_box, replicate 4 (replicate 9 1)))"
    by (simp add: returning_geometry_def example_factor_def)
  from evaluateError_residual [OF p b]
  obtain J1 J2 where r: "evaluateError returning_geometry (example_factor SIMPLE) example_pose
      example_quadric False False
      = Inr ([xmin unit_box - xmin (measured (example_factor SIMPLE)),
              ymin unit_box - ymin (measured (example_factor SIMPLE)),
              xmax unit_box - xmax (measured (example_factor SIMPLE)),
              ymax unit_box - ymax (measured (example_factor SIMPLE))], J1, J2)"
    by blast
  have "J1 = None \<and> J2 = None"
    using r evaluateError_def [of returning_geometry "example_factor SIMPLE" example_pose
        example_quadric False False]
    by (simp add: tryBlock_def predictedBounds_def returning_geometry_def example_factor_def)
  with r p b show ?thesis
    by (simp add: unit_box_def example_factor_def)
qed

text \<open>
  C3. On a successful evaluation, with the buffers of the sizes the code declares
  (\<open>db_dC\<close> 4x9 filled by the bounds, \<open>dC_dx\<close> 9x6 and \<open>dC_dq\<close> 9x9 filled by the
  projection), the matrix written to \<open>H1\<close>, when requested, is the 4x6 matrix whose entry
  \<open>(i, j)\<close> is the sum over \<open>k\<close> of \<open>db_dC(i, k) * dC_dx(k, j)\<close>, and the matrix written to
  \<open>H2\<close> is the 4x9 matrix whose entry \<open>(i, j)\<close> is the sum over \<open>k\<close> of
  \<open>db_dC(i, k) * dC_dq(k, j)\<close>: the matrix products of the Jacobian of the box with the
  two Jacobians of the conic. A Jacobian that is not requested is not written.
\<close>

theorem evaluateError_jacobians:
  assumes "project g quadric pose (calibration this) H2 H1 = Inr (dualConic, dC_dq, dC_dx)"
    and "(errorType this = SIMPLE \<and> bounds g dualConic (H1 \<or> H2) = Inr (predicted, db_dC))
       \<or> (errorType this = COMPLEX
           \<and> smartBounds g dualConic (calibration this) (H1 \<or> H2) = Inr (predicted, db_dC))"
    and "dims db_dC 4 9" and "dims dC_dx 9 6" and "dims dC_dq 9 9"
  shows "\<exists>error J1 J2.
           evaluateError g this pose quadric H1 H2 = Inr (error, J1, J2)
           \<and> (if H1
               then \<exists>M. J1 = Some M \<and> dims M 4 6
                      \<and> (\<forall>i<4. \<forall>j<6. M ! i ! j = (\<Sum>k<9. db_dC ! i ! k * dC_dx ! k ! j))
               else J1 = None)
           \<and> (if H2
               then \<exists>M. J2 = Some M \<and> dims M 4 9
                      \<and> (\<forall>i<4. \<forall>j<9. M ! i ! j = (\<Sum>k<9. db_dC ! i ! k * dC_dq ! k ! j))
               else J2 = None)"
proof -
  have e: "evaluateError g this pose quadric H1 H2 =
             Inr (vminus (vector predicted) (vector (measured this)),
                  if H1 then Some (mat_mul db_dC dC_dx) else None,
                  if H2 then Some (mat_mul db_dC dC_dq) else None)"
    using assms(1,2) by (auto simp: evaluateError_def tryBlock_def predictedBounds_def)
  have x: "dims (mat_mul db_dC dC_dx) 4 6
           \<and> (\<forall>i<4. \<forall>j<6. mat_mul db_dC dC_dx ! i ! j = (\<Sum>k<9. db_dC ! i ! k * dC_dx ! k ! j))"
    using mat_mul_dims [OF assms(3,4)] mat_mul_entry [OF assms(3,4)] by simp
  have q: "dims (mat_mul db_dC dC_dq) 4 9
           \<and> (\<forall>i<4. \<forall>j<9. mat_mul db_dC dC_dq ! i ! j = (\<Sum>k<9. db_dC ! i ! k * dC_dq ! k ! j))"
    using mat_mul_dims [OF assms(3,5)] mat_mul_entry [OF assms(3,5)] by simp
  show ?thesis using e x q by simp
qed

theorem evaluateError_jacobians_witness:
  "project jacobian_geometry example_quadric example_pose
       (calibration (example_factor COMPLEX)) True True
     = Inr (unit_circle, example_dC_dq, example_dC_dx)
   \<and> errorType (example_factor COMPLEX) = COMPLEX
   \<and> smartBounds jacobian_geometry unit_circle (calibration (example_factor COMPLEX))
       (True \<or> True) = Inr (unit_box, example_db_dC)
   \<and> dims example_db_dC 4 9 \<and> dims example_dC_dx 9 6 \<and> dims example_dC_dq 9 9
   \<and> (\<exists>error. evaluateError jacobian_geometry (example_factor COMPLEX) example_pose
         example_quadric True True
       = Inr (error,
              Some [[813, 834, 855, 876, 897, 918],
                    [504, 540, 576, 612, 648, 684],
                    [1869, 1938, 2007, 2076, 2145, 2214],
                    [3810, 3912, 4014, 4116, 4218, 4320]],
              Some [[183, - 186, 189, - 192, 195, - 198, 201, - 204, 207],
                    [1006, - 1022, 1038, - 1054, 1070, - 1086, 1102, - 1118, 1134],
                    [- 3057, 3126, - 3195, 3264, - 3333, 3402, - 3471, 3540, - 3609],
                    [696, - 726, 756, - 786, 816, - 846, 876, - 906, 936]]))"
proof -
  have p: "project jacobian_geometry example_quadric example_pose
             (calibration (example_factor COMPLEX)) True True
           = Inr (unit_circle, example_dC_dq, example_dC_dx)"
    by (simp add: jacobian_geometry_def)
  have b: "(errorType (example_factor COMPLEX) = SIMPLE
             \<and> bounds jacobian_geometry unit_circle (True \<or> True)
                 = Inr (unit_box, example_db_dC))
           \<or> (errorType (example_factor COMPLEX) = COMPLEX
             \<and> smartBounds jacobian_geometry unit_circle (calibration (example_factor COMPLEX))
                  (True \<or> True) = Inr (unit_box, example_db_dC))"
    by (simp add: jacobian_geometry_def example_factor_def)
  from evaluateError_jacobians [OF p b example_dims(1,2,3)]
  obtain error M1 M2 where
    r: "evaluateError jacobian_geometry (example_factor COMPLEX) example_pose example_quadric
          True True = Inr (error, Some M1, Some M2)"
    and d1: "dims M1 4 6"
    and e1: "\<forall>i<4. \<forall>j<6. M1 ! i ! j = (\<Sum>k<9. example_db_dC ! i ! k * example_dC_dx ! k ! j)"
    and d2: "dims M2 4 9"
    and e2: "\<forall>i<4. \<forall>j<9. M2 ! i ! j = (\<Sum>k<9. example_db_dC ! i ! k * example_dC_dq ! k ! j)"
    by auto
  have "M1 = example_H1"
  proof (rule dims_ext [OF d1 example_dims(4)])
    fix i j :: nat assume ij: "i < 4" "j < 6"
    have "example_H1 ! i ! j = (\<Sum>k<9. example_db_dC ! i ! k * example_dC_dx ! k ! j)"
      using mat_mul_entry [OF example_dims(1,2) _ ij] by (simp add: example_H1_product)
    with e1 ij show "M1 ! i ! j = example_H1 ! i ! j" by simp
  qed
  moreover have "M2 = example_H2"
  proof (rule dims_ext [OF d2 example_dims(5)])
    fix i j :: nat assume ij: "i < 4" "j < 9"
    have "example_H2 ! i ! j = (\<Sum>k<9. example_db_dC ! i ! k * example_dC_dq ! k ! j)"
      using mat_mul_entry [OF example_dims(1,3) _ ij] by (simp add: example_H2_product)
    with e2 ij show "M2 ! i ! j = example_H2 ! i ! j" by simp
  qed
  ultimately show ?thesis
    using r p b example_dims(1,2,3)
    by (simp add: example_H1_def example_H2_def example_factor_def)
qed

section \<open>Projection failures\<close>

text \<open>
  C1. The factor signals every failure of the projection with one exception class,
  QuadricProjectionException; the error kinds InvalidQuadric, DegenerateConic and
  ExtremaExtractionFailure of the specification are its conceptual names. When such an
  exception is thrown while the predicted box is computed (by project, by bounds in
  SIMPLE mode, or by smartBounds in COMPLEX mode, where any std::runtime_error counts as
  well), evaluateError returns normally: the error vector is (1000, 1000, 1000, 1000),
  \<open>H1\<close> is the 4x6 zero matrix and \<open>H2\<close> the 4x9 zero matrix where requested.
\<close>

theorem evaluateError_projection_failure:
  assumes "(\<exists>e. project g quadric pose (calibration this) H2 H1 = Inl e
                \<and> is_QuadricProjectionException e)
         \<or> (\<exists>dualConic dC_dq dC_dx e.
               project g quadric pose (calibration this) H2 H1 = Inr (dualConic, dC_dq, dC_dx)
               \<and> ((errorType this = SIMPLE \<and> bounds g dualConic (H1 \<or> H2) = Inl e
                     \<and> is_QuadricProjectionException e)
                  \<or> (errorType this = COMPLEX
                     \<and> smartBounds g dualConic (calibration this) (H1 \<or> H2) = Inl e
                     \<and> (is_QuadricProjectionException e
                         \<or> is_runtime_error (qpe_is_runtime_error g) e))))"
  shows "evaluateError g this pose quadric H1 H2 =
           Inr ([1000, 1000, 1000, 1000],
                if H1 then Some (replicate 4 (replicate 6 0)) else None,
                if H2 then Some (replicate 4 (replicate 9 0)) else None)"
  using assms
  by (auto simp: evaluateError_def tryBlock_def predictedBounds_def Ones_def scale_def
      Zero_def eval_nat_numeral)

theorem evaluateError_projection_failure_witness:
  "project throwing_geometry example_quadric example_pose
       (calibration (example_factor COMPLEX)) True True
     = Inr (unit_circle, replicate 9 (replicate 9 3), replicate 9 (replicate 6 2))
   \<and> errorType (example_factor COMPLEX) = COMPLEX
   \<and> smartBounds throwing_geometry unit_circle (calibration (example_factor COMPLEX))
       (True \<or> True) = Inl (StdRuntimeError ''no extrema'')
   \<and> is_runtime_error (qpe_is_runtime_error throwing_geometry) (StdRuntimeError ''no extrema'')
   \<and> evaluateError throwing_geometry (example_factor COMPLEX) example_pose example_quadric
       True True
     = Inr ([1000, 1000, 1000, 1000],
            Some [[0, 0, 0, 0, 0, 0], [0, 0, 0, 0, 0, 0], [0, 0, 0, 0, 0, 0], [0, 0, 0, 0, 0, 0]],
            Some [[0, 0, 0, 0, 0, 0, 0, 0, 0], [0, 0, 0, 0, 0, 0, 0, 0, 0],
                  [0, 0, 0, 0, 0, 0, 0, 0, 0], [0, 0, 0, 0, 0, 0, 0, 0, 0]])"
proof -
  have h: "(\<exists>e. project throwing_geometry example_quadric example_pose
                 (calibration (example_factor COMPLEX)) True True = Inl e
                \<and> is_QuadricProjectionException e)
         \<or> (\<exists>dualConic dC_dq dC_dx e.
               project throwing_geometry example_quadric example_pose
                 (calibration (example_factor COMPLEX)) True True = Inr (dualConic, dC_dq, dC_dx)
               \<and> ((errorType (example_factor COMPLEX) = SIMPLE
                     \<and> bounds throwing_geometry dualConic (True \<or> True) = Inl e
                     \<and> is_QuadricProjectionException e)
                  \<or> (errorType (example_factor COMPLEX) = COMPLEX
                     \<and> smartBounds throwing_geometry dualConic
                          (calibration (example_factor COMPLEX)) (True \<or> True) = Inl e
                     \<and> (is_QuadricProjectionException e
                         \<or> is_runtime_error (qpe_is_runtime_error throwing_geometry) e))))"
    by (simp add: throwing_geometry_def example_factor_def)
  from evaluateError_projection_failure [OF h] show ?thesis
    by (simp add: throwing_geometry_def example_factor_def eval_nat_numeral)
qed

section \<open>The factor object\<close>

text \<open>
  C8. For every input, whether the evaluation succeeds, falls back or lets an exception
  through, the factor object after evaluateError is the object before it: measured box,
  calibration, mode, noise model and keys are the same; only the matrices passed as
  \<open>H1\<close> and \<open>H2\<close> are written, and nothing at all when an exception leaves the call. The
  returned error does not depend on the noise model, the keys or the previous contents
  of those matrices: it is a function of the pose, the quadric, the flags, the measured
  box, the calibration and the mode.
\<close>

theorem evaluateError_leaves_factor_unchanged:
  "object (snd (evaluateError_st g pose quadric H1 H2 s)) = object s
   \<and> measured (object (snd (evaluateError_st g pose quadric H1 H2 s))) = measured (object s)
   \<and> calibration (object (snd (evaluateError_st g pose quadric H1 H2 s)))
       = calibration (object s)
   \<and> errorType (object (snd (evaluateError_st g pose quadric H1 H2 s)))
       = errorType (object s)
   \<and> noiseModel (object (snd (evaluateError_st g pose quadric H1 H2 s)))
       = noiseModel (object s)
   \<and> key1 (object (snd (evaluateError_st g pose quadric H1 H2 s))) = key1 (object s)
   \<and> key2 (object (snd (evaluateError_st g pose quadric H1 H2 s))) = key2 (object s)
   \<and> snd (evaluateError_st g pose quadric False False s) = s
   \<and> fst (evaluateError_st g pose quadric H1 H2
           \<lparr>object = (object s)\<lparr>noiseModel := n, key1 := k1, key2 := k2\<rparr>,
            H1_matrix = A, H2_matrix = B\<rparr>)
     = fst (evaluateError_st g pose quadric H1 H2 s)"
proof -
  have same: "object (snd (evaluateError_st g pose quadric H1 H2 s)) = object s"
    by (simp add: evaluateError_st_def split: sum.splits prod.splits)
  have none: "snd (evaluateError_st g pose quadric False False s) = s"
  proof (cases "evaluateError g (object s) pose quadric False False")
    case (Inl e)
    then show ?thesis by (simp add: evaluateError_st_def)
  next
    case (Inr r)
    obtain error J1 J2 where r: "r = (error, J1, J2)" by (cases r) auto
    have "J1 = None \<and> J2 = None"
      using Inr r
      by (auto simp: evaluateError_def tryBlock_def split: sum.splits prod.splits if_splits)
    then show ?thesis using Inr r by (simp add: evaluateError_st_def)
  qed
  have pure: "fst (evaluateError_st g pose quadric H1 H2
                \<lparr>object = (object s)\<lparr>noiseModel := n, key1 := k1, key2 := k2\<rparr>,
                 H1_matrix = A, H2_matrix = B\<rparr>)
              = fst (evaluateError_st g pose quadric H1 H2 s)"
    by (simp add: evaluateError_st_def evaluateError_reads split: sum.splits prod.splits)
  from same none pure show ?thesis by simp
qed

section \<open>The Jacobians alone\<close>

text \<open>
  C9. evaluateH1 returns exactly the matrix that evaluateError writes to \<open>H1\<close> when called
  with \<open>H1\<close> and without \<open>H2\<close>, and throws what evaluateError throws; evaluateH2 likewise
  for \<open>H2\<close>. When the try block ends in a QuadricProjectionException they return the 4x6
  and the 4x9 zero matrix.
\<close>

theorem evaluateH_agrees_with_evaluateError:
  "map_sum id (\<lambda>(error, J1, J2). J1) (evaluateError g this pose quadric True False)
     = map_sum id Some (evaluateH1 g this pose quadric)
   \<and> map_sum id (\<lambda>(error, J1, J2). J2) (evaluateError g this pose quadric False True)
     = map_sum id Some (evaluateH2 g this pose quadric)
   \<and> (tryBlock g this pose quadric True False = Inl e1 \<and> is_QuadricProjectionException e1
        \<longrightarrow> evaluateH1 g this pose quadric = Inr (replicate 4 (replicate 6 0)))
   \<and> (tryBlock g this pose quadric False True = Inl e2 \<and> is_QuadricProjectionException e2
        \<longrightarrow> evaluateH2 g this pose quadric = Inr (replicate 4 (replicate 9 0)))"
proof -
  have 1: "map_sum id (\<lambda>(error, J1, J2). J1) (evaluateError g this pose quadric True False)
             = map_sum id Some (evaluateH1 g this pose quadric)"
    using evaluateError_writes [of g this pose quadric True False]
    by (auto simp: evaluateH1_def split: sum.splits prod.splits)
  have 2: "map_sum id (\<lambda>(error, J1, J2). J2) (evaluateError g this pose quadric False True)
             = map_sum id Some (evaluateH2 g this pose quadric)"
    using evaluateError_writes [of g this pose quadric False True]
    by (auto simp: evaluateH2_def split: sum.splits prod.splits)
  have 3: "tryBlock g this pose quadric True False = Inl e1 \<and> is_QuadricProjectionException e1
             \<longrightarrow> evaluateH1 g this pose quadric = Inr (replicate 4 (replicate 6 0))"
    by (simp add: evaluateH1_def evaluateError_def Zero_def)
  have 4: "tryBlock g this pose quadric False True = Inl e2 \<and> is_QuadricProjectionException e2
             \<longrightarrow> evaluateH2 g this pose quadric = Inr (replicate 4 (replicate 9 0))"
    by (simp add: evaluateH2_def evaluateError_def Zero_def)
  from 1 2 3 4 show ?thesis by blast
qed

theorem evaluateH_agrees_with_evaluateError_witness:
  "tryBlock throwing_geometry (example_factor SIMPLE) example_pose example_quadric True False
     = Inl (QuadricProjectionException ''bounds failed'')
   \<and> tryBlock throwing_geometry (example_factor SIMPLE) example_pose example_quadric False True
     = Inl (QuadricProjectionException ''bounds failed'')
   \<and> is_QuadricProjectionException (QuadricProjectionException ''bounds failed'')
   \<and> evaluateH1 throwing_geometry (example_factor SIMPLE) example_pose example_quadric
     = Inr [[0, 0, 0, 0, 0, 0], [0, 0, 0, 0, 0, 0], [0, 0, 0, 0, 0, 0], [0, 0, 0, 0, 0, 0]]
   \<and> evaluateH2 throwing_geometry (example_factor SIMPLE) example_pose example_quadric
     = Inr [[0, 0, 0, 0, 0, 0, 0, 0, 0], [0, 0, 0, 0, 0, 0, 0, 0, 0],
            [0, 0, 0, 0, 0, 0, 0, 0, 0], [0, 0, 0, 0, 0, 0, 0, 0, 0]]
   \<and> map_sum id (\<lambda>(error, J1, J2). J1)
       (evaluateError throwing_geometry (example_factor SIMPLE) example_pose example_quadric
          True False)
     = Inr (Some [[0, 0, 0, 0, 0, 0], [0, 0, 0, 0, 0, 0], [0, 0, 0, 0, 0, 0],
                  [0, 0, 0, 0, 0, 0]])"
proof -
  have t1: "tryBlock throwing_geometry (example_factor SIMPLE) example_pose example_quadric
              True False = Inl (QuadricProjectionException ''bounds failed'')"
    by (simp add: tryBlock_def predictedBounds_def throwing_geometry_def example_factor_def)
  have t2: "tryBlock throwing_geometry (example_factor SIMPLE) example_pose example_quadric
              False True = Inl (QuadricProjectionException ''bounds failed'')"
    by (simp add: tryBlock_def predictedBounds_def throwing_geometry_def example_factor_def)
  from evaluateH_agrees_with_evaluateError
    [of throwing_geometry "example_factor SIMPLE" example_pose example_quadric
        "QuadricProjectionException ''bounds failed''"
        "QuadricProjectionException ''bounds failed''"]
    t1 t2
  show ?thesis by (simp add: eval_nat_numeral)
qed

section \<open>Comparing factors\<close>

text \<open>
  C10. equals compares the measured boxes, the calibrations, the noise models and the two
  keys, and nothing else: the modes of the two factors do not enter the result, and a
  factor whose box, calibration and noise model compare equal to themselves is reported
  equal to its copy with any other mode.
\<close>

theorem equals_ignores_errorType:
  "equals t this other tol
     = (box_equals t (measured this) (measured other) tol
        \<and> cal_equals t (calibration this) (calibration other) tol
        \<and> noise_equals t (noiseModel this) (noiseModel other) tol
        \<and> key1 this = key1 other \<and> key2 this = key2 other)
   \<and> equals t (this\<lparr>errorType := a\<rparr>) (other\<lparr>errorType := b\<rparr>) tol = equals t this other tol
   \<and> (box_equals t (measured this) (measured this) tol
        \<and> cal_equals t (calibration this) (calibration this) tol
        \<and> noise_equals t (noiseModel this) (noiseModel this) tol
      \<longrightarrow> equals t this (this\<lparr>errorType := b\<rparr>) tol)"
  by (simp add: equals_def)

theorem equals_ignores_errorType_witness:
  "box_equals exact_testable (measured (example_factor SIMPLE))
       (measured (example_factor SIMPLE)) (1 / 10 ^ 9)
   \<and> cal_equals exact_testable (calibration (example_factor SIMPLE))
       (calibration (example_factor SIMPLE)) (1 / 10 ^ 9)
   \<and> noise_equals exact_testable (noiseModel (example_factor SIMPLE))
       (noiseModel (example_factor SIMPLE)) (1 / 10 ^ 9)
   \<and> (example_factor SIMPLE)\<lparr>errorType := COMPLEX\<rparr> = example_factor COMPLEX
   \<and> equals exact_testable (example_factor SIMPLE) (example_factor COMPLEX) (1 / 10 ^ 9)"
proof -
  have h: "box_equals exact_testable (measured (example_factor SIMPLE))
             (measured (example_factor SIMPLE)) (1 / 10 ^ 9)
           \<and> cal_equals exact_testable (calibration (example_factor SIMPLE))
               (calibration (example_factor SIMPLE)) (1 / 10 ^ 9)
           \<and> noise_equals exact_testable (noiseModel (example_factor SIMPLE))
               (noiseModel (example_factor SIMPLE)) (1 / 10 ^ 9)"
    by (simp add: exact_testable_def)
  have c: "(example_factor SIMPLE)\<lparr>errorType := COMPLEX\<rparr> = example_factor COMPLEX"
    by (simp add: example_factor_def)
  from equals_ignores_errorType
    [of exact_testable "example_factor SIMPLE" "example_factor SIMPLE" "1 / 10 ^ 9"
        SIMPLE COMPLEX]
    h c
  show ?thesis by simp
qed

end
